theory Spec2Isabelle
  imports Complex_Main
begin

section \<open>Numbers, the random source and colours\<close>

text \<open>
  The program is \<^verbatim>\<open>main.js\<close> of the Nebula Heart: a particle system whose
  buffers are flat arrays with three numbers per particle. JavaScript numbers are
  modelled as real numbers: \<open>Math.sin\<close>, \<open>Math.cos\<close> and \<open>Math.sqrt\<close> are
  \<^const>\<open>sin\<close>, \<^const>\<open>cos\<close> and \<^const>\<open>sqrt\<close>, and the loops over the buffers
  compute without rounding. Two places where the rounding of the source decides a
  property are modelled a second time in IEEE-754 arithmetic: the damping of a velocity
  held in a \<open>Float32Array\<close>, and the force of the impulse, computed in doubles. A typed
  array is a list of reals; the buffers of a system always have length \<open>count * 3\<close>,
  and the theorems about single entries assume this shape, under which no read or write
  leaves the array.

  \<open>Math.random()\<close> is an explicit source: a function from the number of the draw to
  the value drawn, and a counter of the draws made so far that every function which
  draws takes and returns.
\<close>

type_synonym rng = "nat \<Rightarrow> real"

definition random :: "rng \<Rightarrow> nat \<Rightarrow> real \<times> nat" where
  "random rnd k = (rnd k, Suc k)"

text \<open>\<open>Math.random()\<close> returns a number in \<open>[0, 1)\<close>.\<close>

definition unit_rng :: "rng \<Rightarrow> bool" where
  "unit_rng rnd \<longleftrightarrow> (\<forall>n. 0 \<le> rnd n \<and> rnd n < 1)"

text \<open>
  \<open>THREE.Color\<close> belongs to the three.js library: a colour is its three channels,
  \<open>new THREE.Color(hex)\<close> reads them from the three bytes of \<open>hex\<close>,
  \<open>c.lerp(d, alpha)\<close> moves every channel of \<open>c\<close> by the fraction \<open>alpha\<close> towards
  \<open>d\<close>, and \<open>c.multiplyScalar(s)\<close> multiplies every channel by \<open>s\<close>.
\<close>

record rgb =
  cr :: real
  cg :: real
  cb :: real

definition Color_hex :: "nat \<Rightarrow> rgb" where
  "Color_hex h =
     \<lparr>cr = real ((h div 65536) mod 256) / 255,
      cg = real ((h div 256) mod 256) / 255,
      cb = real (h mod 256) / 255\<rparr>"

definition Color_white :: rgb where
  "Color_white = \<lparr>cr = 1, cg = 1, cb = 1\<rparr>"

definition lerp :: "rgb \<Rightarrow> rgb \<Rightarrow> real \<Rightarrow> rgb" where
  "lerp c d alpha =
     \<lparr>cr = cr c + (cr d - cr c) * alpha,
      cg = cg c + (cg d - cg c) * alpha,
      cb = cb c + (cb d - cb c) * alpha\<rparr>"

definition multiplyScalar :: "rgb \<Rightarrow> real \<Rightarrow> rgb" where
  "multiplyScalar c s = \<lparr>cr = cr c * s, cg = cg c * s, cb = cb c * s\<rparr>"

section \<open>Configuration\<close>

record palette =
  inner :: rgb
  core :: rgb
  outer :: rgb
  aura :: rgb

record config =
  particleCount :: nat
  auraCount :: nat
  explosionForce :: real
  formationSpeed :: real
  colors :: palette

text \<open>
  The constant \<open>CONFIG\<close> of the source; the colours are \<open>0x00eaff\<close>, \<open>0xff0055\<close>,
  \<open>0xffaa00\<close> and \<open>0xaa00ff\<close>.
\<close>

definition CONFIG :: config where
  "CONFIG =
     \<lparr>particleCount = 50000,
      auraCount = 8000,
      explosionForce = 3.5,
      formationSpeed = 0.025,
      colors = \<lparr>inner = Color_hex 60159, core = Color_hex 16711765,
                outer = Color_hex 16755200, aura = Color_hex 11141375\<rparr>\<rparr>"

section \<open>The heart curve\<close>

text \<open>\<open>getHeartPoint(t)\<close> returns the object \<open>{x, y}\<close>, here the pair \<open>(x, y)\<close>.\<close>

definition getHeartPoint :: "real \<Rightarrow> real \<times> real" where
  "getHeartPoint t =
     (let x = 16 * (sin t) ^ 3;
          y = 13 * cos t - 5 * cos (2 * t) - 2 * cos (3 * t) - cos (4 * t)
      in (x, y))"

section \<open>Building a particle system\<close>

text \<open>
  What \<open>createParticleSystem\<close> returns: the four attribute arrays of the geometry, the
  size and the opacity of the material, the flag \<open>needsUpdate\<close> of the position
  attribute and the rotation of the mesh about the vertical axis.
\<close>

record psystem =
  position :: "real list"
  target :: "real list"
  color :: "real list"
  velocity :: "real list"
  mat_size :: real
  mat_opacity :: real
  needsUpdate :: bool
  rotation_y :: real

text \<open>The arrays under construction, with the counter of the random source.\<close>

record builder =
  posArray :: "real list"
  targetArray :: "real list"
  colArray :: "real list"
  velArray :: "real list"
  draws :: nat

text \<open>
  Steps 1 and 2 of the loop body: a point of the curve, the volumetric scatter, and the
  target \<open>(tx, ty, tz)\<close>. \<open>rScale\<close> is drawn for the aura as well, where it is not used.
\<close>

definition sample_target :: "bool \<Rightarrow> rng \<Rightarrow> nat \<Rightarrow> (real \<times> real \<times> real) \<times> nat" where
  "sample_target isAura rnd k0 =
     (let (u, k) = random rnd k0;
          t = u * pi * 2;
          (px, py) = getHeartPoint t;
          (rScale, k) = random rnd k;
          (scale, k) =
            (if isAura then (let (u, k) = random rnd k in (1.0 + u * 0.4, k))
             else (0.8 + rScale ^ 3 * 0.2, k));
          spread = (if isAura then 4.0 else 1.5);
          (u, k) = random rnd k;
          noiseX = (u - 0.5) * spread;
          (u, k) = random rnd k;
          noiseY = (u - 0.5) * spread;
          (u, k) = random rnd k;
          noiseZ = (u - 0.5) * (if isAura then 12 else 5);
          tx = px * scale + noiseX;
          ty = py * scale + noiseY;
          tz = noiseZ
      in ((tx, ty, tz), k))"

text \<open>Step 3 of the loop body: the colour, from the target's \<open>tx\<close> and \<open>ty\<close>.\<close>

definition color_logic :: "config \<Rightarrow> bool \<Rightarrow> rng \<Rightarrow> nat \<Rightarrow> real \<Rightarrow> real \<Rightarrow> rgb \<times> nat" where
  "color_logic cfg isAura rnd k tx ty =
     (if isAura then
        (let (u, k) = random rnd k
         in (lerp (aura (colors cfg)) (inner (colors cfg)) (u * 0.5), k))
      else
        (let dist = sqrt (tx * tx + ty * ty) in
         if \<bar>tx\<bar> < 2 \<and> ty > 0 then
           (lerp (inner (colors cfg)) Color_white 0.3, k)
         else if dist > 14 then
           (let (u, k) = random rnd k
            in (lerp (core (colors cfg)) (outer (colors cfg)) u, k))
         else
           (let (u, k) = random rnd k
            in (multiplyScalar (core (colors cfg)) (0.8 + u * 0.4), k))))"

text \<open>One pass of the loop body, for the particle \<open>i\<close>.\<close>

definition create_body :: "config \<Rightarrow> bool \<Rightarrow> rng \<Rightarrow> nat \<Rightarrow> builder \<Rightarrow> builder" where
  "create_body cfg isAura rnd i b =
     (let i3 = i * 3;
          ((tx, ty, tz), k) = sample_target isAura rnd (draws b);
          (c, k) = color_logic cfg isAura rnd k tx ty;
          tA = (targetArray b)[i3 := tx, i3 + 1 := ty, i3 + 2 := tz];
          (u, k) = random rnd k;
          pA = (posArray b)[i3 := (u - 0.5) * 300];
          (u, k) = random rnd k;
          pA = pA[i3 + 1 := (u - 0.5) * 300];
          (u, k) = random rnd k;
          pA = pA[i3 + 2 := (u - 0.5) * 300];
          cA = (colArray b)[i3 := cr c, i3 + 1 := cg c, i3 + 2 := cb c];
          vA = (velArray b)[i3 := 0, i3 + 1 := 0, i3 + 2 := 0]
      in \<lparr>posArray = pA, targetArray = tA, colArray = cA, velArray = vA, draws = k\<rparr>)"

text \<open>\<open>for (let i = 0; i < count; i++)\<close>, entered at \<open>i\<close>.\<close>

function create_loop :: "config \<Rightarrow> bool \<Rightarrow> rng \<Rightarrow> nat \<Rightarrow> nat \<Rightarrow> builder \<Rightarrow> builder" where
  "create_loop cfg isAura rnd count i b =
     (if i < count then create_loop cfg isAura rnd count (i + 1) (create_body cfg isAura rnd i b)
      else b)"
  by pat_completeness auto
termination
  by (relation "measure (\<lambda>(cfg, isAura, rnd, count, i, b). count - i)") auto

declare create_loop.simps [simp del]

text \<open>
  \<open>createParticleSystem(count, size, opacity, isAura)\<close>: every \<open>Float32Array\<close> starts
  filled with zeros. The result comes with the counter of the random source.
\<close>

definition createParticleSystem ::
  "config \<Rightarrow> rng \<Rightarrow> nat \<Rightarrow> nat \<Rightarrow> real \<Rightarrow> real \<Rightarrow> bool \<Rightarrow> psystem \<times> nat" where
  "createParticleSystem cfg rnd k count sz opacity isAura =
     (let b0 = \<lparr>posArray = replicate (count * 3) 0, targetArray = replicate (count * 3) 0,
                colArray = replicate (count * 3) 0, velArray = replicate (count * 3) 0,
                draws = k\<rparr>;
          b = create_loop cfg isAura rnd count 0 b0
      in (\<lparr>position = posArray b, target = targetArray b, color = colArray b,
           velocity = velArray b, mat_size = sz, mat_opacity = opacity,
           needsUpdate = False, rotation_y = 0\<rparr>, draws b))"

section \<open>The impulse: explode\<close>

text \<open>\<open>Math.sqrt(x*x + y*y + z*z) || 1\<close>: the number \<open>0\<close> is falsy.\<close>

definition explode_len :: "real \<Rightarrow> real \<Rightarrow> real \<Rightarrow> real" where
  "explode_len x y z = (let l = sqrt (x * x + y * y + z * z) in if l = 0 then 1 else l)"

text \<open>One pass of the loop body: \<open>pos\<close> is read, \<open>vel\<close> is updated, one number is drawn.\<close>

definition explode_body :: "config \<Rightarrow> rng \<Rightarrow> real list \<Rightarrow> nat \<Rightarrow> real list \<times> nat \<Rightarrow> real list \<times> nat" where
  "explode_body cfg rnd pos i st =
     (let (vel, k) = st;
          i3 = i * 3;
          x = pos ! i3;
          y = pos ! (i3 + 1);
          z = pos ! (i3 + 2);
          len = explode_len x y z;
          (u, k) = random rnd k;
          force = u * explosionForce cfg + 1.0;
          vel = vel[i3 := vel ! i3 + (x / len) * force];
          vel = vel[i3 + 1 := vel ! (i3 + 1) + (y / len) * force];
          vel = vel[i3 + 2 := vel ! (i3 + 2) + (z / len) * force]
      in (vel, k))"

text \<open>\<open>for (let i = 0; i < pos.length/3; i++)\<close>, entered at \<open>i\<close>.\<close>

function explode_loop :: "config \<Rightarrow> rng \<Rightarrow> real list \<Rightarrow> nat \<Rightarrow> real list \<times> nat \<Rightarrow> real list \<times> nat" where
  "explode_loop cfg rnd pos i st =
     (if real i < real (length pos) / 3
      then explode_loop cfg rnd pos (i + 1) (explode_body cfg rnd pos i st)
      else st)"
  by pat_completeness auto
termination
  by (relation "measure (\<lambda>(cfg, rnd, pos, i, st). length pos - i)") auto

declare explode_loop.simps [simp del]

definition explode :: "config \<Rightarrow> rng \<Rightarrow> nat \<Rightarrow> psystem \<Rightarrow> psystem \<times> nat" where
  "explode cfg rnd k geo =
     (let pos = position geo;
          vel = velocity geo;
          (vel, k) = explode_loop cfg rnd pos 0 (vel, k)
      in (geo\<lparr>velocity := vel\<rparr>, k))"

section \<open>The frame: animateSystem\<close>

text \<open>One pass of the loop body: \<open>targets\<close> is read, the other two arrays are updated.\<close>

definition animate_body ::
  "config \<Rightarrow> real \<Rightarrow> real list \<Rightarrow> nat \<Rightarrow> real list \<times> real list \<Rightarrow> real list \<times> real list" where
  "animate_body cfg time targets i st =
     (let (positions, velocities) = st;
          i3 = i * 3;
          positions = positions[i3 := positions ! i3 + velocities ! i3];
          positions = positions[i3 + 1 := positions ! (i3 + 1) + velocities ! (i3 + 1)];
          positions = positions[i3 + 2 := positions ! (i3 + 2) + velocities ! (i3 + 2)];
          velocities = velocities[i3 := velocities ! i3 * 0.94];
          velocities = velocities[i3 + 1 := velocities ! (i3 + 1) * 0.94];
          velocities = velocities[i3 + 2 := velocities ! (i3 + 2) * 0.94];
          tx = targets ! i3;
          ty = targets ! (i3 + 1);
          tz = targets ! (i3 + 2);
          breath = sin (time * 1.5 + tx * 0.1) * 0.5
      in if \<bar>velocities ! i3\<bar> < 0.1 then
           (let positions = positions[i3 := positions ! i3 + (tx - positions ! i3) * formationSpeed cfg];
                positions = positions[i3 + 1 :=
                  positions ! (i3 + 1) + (ty - positions ! (i3 + 1)) * formationSpeed cfg];
                positions = positions[i3 + 2 :=
                  positions ! (i3 + 2) + ((tz + breath) - positions ! (i3 + 2)) * formationSpeed cfg]
            in (positions, velocities))
         else (positions, velocities))"

lemma animate_body_length:
  "length (fst (animate_body cfg time targets i st)) = length (fst st)"
  by (simp add: animate_body_def Let_def split_def)

text \<open>\<open>for (let i = 0; i < positions.length/3; i++)\<close>, entered at \<open>i\<close>.\<close>

function animate_loop ::
  "config \<Rightarrow> real \<Rightarrow> real list \<Rightarrow> nat \<Rightarrow> real list \<times> real list \<Rightarrow> real list \<times> real list" where
  "animate_loop cfg time targets i st =
     (if real i < real (length (fst st)) / 3
      then animate_loop cfg time targets (i + 1) (animate_body cfg time targets i st)
      else st)"
  by pat_completeness auto
termination
  by (relation "measure (\<lambda>(cfg, time, targets, i, st). length (fst st) - i)")
    (auto simp: animate_body_length)

declare animate_loop.simps [simp del]

definition animateSystem :: "config \<Rightarrow> psystem \<Rightarrow> real \<Rightarrow> psystem" where
  "animateSystem cfg system time =
     (let positions = position system;
          targets = target system;
          velocities = velocity system;
          (positions, velocities) = animate_loop cfg time targets 0 (positions, velocities)
      in system\<lparr>position := positions, velocity := velocities,
                needsUpdate := True, rotation_y := sin (time * 0.2) * 0.15\<rparr>)"

section \<open>The page: both systems, the pointer and the frames\<close>

text \<open>
  The module creates the main heart and the aura, then the background stars, which take
  \<open>2000 * 3\<close> draws of the random source. A \<open>pointerdown\<close> event hides the text and
  explodes both systems; a frame animates both at the elapsed time of the clock.
\<close>

record world =
  mainHeart :: psystem
  auraHeart :: psystem
  ui_hidden :: bool
  drawn :: nat

definition init_world :: "config \<Rightarrow> rng \<Rightarrow> world" where
  "init_world cfg rnd =
     (let (m, k) = createParticleSystem cfg rnd 0 (particleCount cfg) 0.4 0.9 False;
          (a, k) = createParticleSystem cfg rnd k (auraCount cfg) 1.2 0.3 True
      in \<lparr>mainHeart = m, auraHeart = a, ui_hidden = False, drawn = k + 2000 * 3\<rparr>)"

definition pointerdown :: "config \<Rightarrow> rng \<Rightarrow> world \<Rightarrow> world" where
  "pointerdown cfg rnd w =
     (let (m, k) = explode cfg rnd (drawn w) (mainHeart w);
          (a, k) = explode cfg rnd k (auraHeart w)
      in w\<lparr>mainHeart := m, auraHeart := a, ui_hidden := True, drawn := k\<rparr>)"

definition animate :: "config \<Rightarrow> real \<Rightarrow> world \<Rightarrow> world" where
  "animate cfg time w =
     w\<lparr>mainHeart := animateSystem cfg (mainHeart w) time,
       auraHeart := animateSystem cfg (auraHeart w) time\<rparr>"

datatype event = PointerDown | Frame real

fun handle :: "config \<Rightarrow> rng \<Rightarrow> event \<Rightarrow> world \<Rightarrow> world" where
  "handle cfg rnd PointerDown w = pointerdown cfg rnd w"
| "handle cfg rnd (Frame time) w = animate cfg time w"

definition run :: "config \<Rightarrow> rng \<Rightarrow> event list \<Rightarrow> world \<Rightarrow> world" where
  "run cfg rnd evs w = fold (handle cfg rnd) evs w"

section \<open>Particles of a flat array\<close>

type_synonym vec3 = "real \<times> real \<times> real"

text \<open>The three entries of the particle \<open>i\<close>.\<close>

definition vec_at :: "real list \<Rightarrow> nat \<Rightarrow> vec3" where
  "vec_at xs i = (xs ! (i * 3), xs ! (i * 3 + 1), xs ! (i * 3 + 2))"

definition magnitude :: "vec3 \<Rightarrow> real" where
  "magnitude v = (case v of (x, y, z) \<Rightarrow> sqrt (x * x + y * y + z * z))"


text \<open>
  The buffers of a system of \<open>n\<close> particles, as \<open>createParticleSystem\<close> allocates
  them.
\<close>

definition shaped :: "nat \<Rightarrow> psystem \<Rightarrow> bool" where
  "shaped n s \<longleftrightarrow>
     length (position s) = n * 3 \<and> length (target s) = n * 3 \<and>
     length (color s) = n * 3 \<and> length (velocity s) = n * 3"

section \<open>The integrator step as the specification words it\<close>

text \<open>
  Per particle and frame, in this order: the position gains the velocity; the velocity
  is multiplied by \<open>0.94\<close>; the breathing offset is
  \<open>sin(time*1.5 + target.x*0.1) * 0.5\<close>; and only when the damped velocity has
  \<open>|velocity.x| < 0.1\<close> the position is blended towards
  \<open>(target.x, target.y, target.z + breath)\<close> by the fraction \<open>formationSpeed\<close>.
\<close>

definition spec_integrator_step :: "real \<Rightarrow> real \<Rightarrow> vec3 \<Rightarrow> vec3 \<Rightarrow> vec3 \<Rightarrow> vec3 \<times> vec3" where
  "spec_integrator_step fraction time p v tg =
     (case p of (px, py, pz) \<Rightarrow> case v of (vx, vy, vz) \<Rightarrow> case tg of (tx, ty, tz) \<Rightarrow>
        let qx = px + vx; qy = py + vy; qz = pz + vz;
            wx = vx * 0.94; wy = vy * 0.94; wz = vz * 0.94;
            breath = sin (time * 1.5 + tx * 0.1) * 0.5
        in if \<bar>wx\<bar> < 0.1
           then ((qx + (tx - qx) * fraction, qy + (ty - qy) * fraction,
                  qz + ((tz + breath) - qz) * fraction), (wx, wy, wz))
           else ((qx, qy, qz), (wx, wy, wz)))"



section \<open>The impulse as the specification words it\<close>

text \<open>
  The vector from the origin to the position is normalised, with the length \<open>0\<close>
  taken as \<open>1\<close>, scaled by the force, and added to the velocity.
\<close>

definition spec_impulse :: "real \<Rightarrow> vec3 \<Rightarrow> vec3 \<Rightarrow> vec3" where
  "spec_impulse force p v =
     (case p of (x, y, z) \<Rightarrow> case v of (vx, vy, vz) \<Rightarrow>
        let len = (if magnitude p = 0 then 1 else magnitude p)
        in (vx + force * (x / len), vy + force * (y / len), vz + force * (z / len)))"

section \<open>IEEE-754 rounding\<close>

text \<open>
  A finite binary floating-point number with precision \<open>p\<close> and least normal exponent
  \<open>emin\<close> is a whole multiple of its quantum, \<open>2 ^ (e - (p - 1))\<close> for a number in
  \<open>[2 ^ e, 2 ^ (e + 1))\<close> with \<open>e \<ge> emin\<close>, and \<open>2 ^ (emin - (p - 1))\<close> for the
  subnormal numbers below. A real number is rounded to the nearest such number, a tie
  to the one whose multiple is even. NaN, the infinities and the sign of zero are not
  modelled; a number beyond the largest finite one, which the source would round to
  Infinity, is not reached by the theorems below.
\<close>

definition round_half_even :: "real \<Rightarrow> int" where
  "round_half_even y =
     (let n = \<lfloor>y\<rfloor>
      in if y - of_int n < 1 / 2 then n
         else if 1 / 2 < y - of_int n then n + 1
         else if even n then n else n + 1)"

definition binade :: "real \<Rightarrow> int" where
  "binade x = \<lfloor>log 2 \<bar>x\<bar>\<rfloor>"

definition quantum :: "nat \<Rightarrow> int \<Rightarrow> real \<Rightarrow> real" where
  "quantum p emin x = 2 powi (max (binade x) emin - (int p - 1))"

definition round_binary :: "nat \<Rightarrow> int \<Rightarrow> real \<Rightarrow> real" where
  "round_binary p emin x =
     (if x = 0 then 0
      else of_int (round_half_even (x / quantum p emin x)) * quantum p emin x)"

text \<open>A double: the result of every arithmetic operation and of every number literal.\<close>

definition to_binary64 :: "real \<Rightarrow> real" where
  "to_binary64 x = round_binary 53 (- 1022) x"

text \<open>A float32: what a store into a \<open>Float32Array\<close> keeps of a double.\<close>

definition to_binary32 :: "real \<Rightarrow> real" where
  "to_binary32 x = round_binary 24 (- 126) x"



text \<open>
  \<open>velocities[j] *= 0.94\<close> of \<open>animateSystem\<close>, with the rounding written out:
  the element is read as a double, multiplied by the double nearest to \<open>0.94\<close>, the
  product is rounded to a double, and the store rounds it to a float32. The three
  lines do this to the three components of the velocity of a particle.
\<close>

definition damp :: "real \<Rightarrow> real" where
  "damp v = to_binary32 (to_binary64 (v * to_binary64 0.94))"



section \<open>Example systems\<close>

text \<open>
  A system of one particle, from its position, velocity and target; the colour is
  white. The concrete instances of the theorems below are stated on such systems.
\<close>

definition one_particle :: "vec3 \<Rightarrow> vec3 \<Rightarrow> vec3 \<Rightarrow> psystem" where
  "one_particle p v tg =
     (case p of (px, py, pz) \<Rightarrow> case v of (vx, vy, vz) \<Rightarrow> case tg of (tx, ty, tz) \<Rightarrow>
        \<lparr>position = [px, py, pz], target = [tx, ty, tz], color = [1, 1, 1],
         velocity = [vx, vy, vz], mat_size = 0.4, mat_opacity = 0.9,
         needsUpdate = False, rotation_y = 0\<rparr>)"


section \<open>The heart curve: formula and range\<close>

lemma cos_four_times: "cos (4 * t) = 8 * cos t ^ 4 - 8 * cos t ^ 2 + (1::real)"
proof -
  have "cos (4 * t) = cos (2 * (2 * t))" by simp
  also have "\<dots> = 2 * (cos (2 * t)) ^ 2 - 1" by (rule cos_double_cos)
  also have "\<dots> = 2 * (2 * cos t ^ 2 - 1) ^ 2 - 1" by (simp only: cos_double_cos)
  also have "\<dots> = 8 * cos t ^ 4 - 8 * cos t ^ 2 + 1"
    by (simp add: power2_eq_square power4_eq_xxxx algebra_simps)
  finally show ?thesis .
qed

text \<open>The height of the curve is a polynomial of degree four in \<open>cos t\<close>.\<close>

lemma heart_y_poly:
  "snd (getHeartPoint t) = - 8 * cos t ^ 4 - 8 * cos t ^ 3 - 2 * cos t ^ 2 + 19 * cos t + 4"
proof -
  have "snd (getHeartPoint t) = 13 * cos t - 5 * cos (2 * t) - 2 * cos (3 * t) - cos (4 * t)"
    by (simp add: getHeartPoint_def)
  also have "\<dots> = 13 * cos t - 5 * (2 * cos t ^ 2 - 1) - 2 * (4 * cos t ^ 3 - 3 * cos t)
      - (8 * cos t ^ 4 - 8 * cos t ^ 2 + 1)"
    by (simp only: cos_four_times cos_double_cos cos_treble_cos)
  also have "\<dots> = - 8 * cos t ^ 4 - 8 * cos t ^ 3 - 2 * cos t ^ 2 + 19 * cos t + 4"
    by (simp add: algebra_simps)
  finally show ?thesis .
qed

text \<open>
  With \<open>c = cos t\<close> the height plus \<open>17\<close> factors as \<open>(c + 1) * (21 - 8 c^3 - 2 c)\<close>,
  and both factors are non-negative on \<open>[-1, 1]\<close>.
\<close>

lemma heart_y_lower: "- 17 \<le> snd (getHeartPoint t)"
proof -
  define c where "c = cos t"
  have c1: "- 1 \<le> c" and c2: "c \<le> 1" by (simp_all add: c_def)
  have "c ^ 3 \<le> \<bar>c ^ 3\<bar>" by simp
  also have "\<dots> = \<bar>c\<bar> ^ 3" by (simp add: power_abs)
  also have "\<dots> \<le> 1" using c1 c2 by (intro power_le_one) auto
  finally have c3: "c ^ 3 \<le> 1" .
  have "0 \<le> (c + 1) * (21 - 8 * c ^ 3 - 2 * c)"
    using c1 c2 c3 by (intro mult_nonneg_nonneg) auto
  also have "\<dots> = (- 8 * c ^ 4 - 8 * c ^ 3 - 2 * c ^ 2 + 19 * c + 4) + 17"
    by (simp add: algebra_simps power2_eq_square power3_eq_cube power4_eq_xxxx)
  finally show ?thesis by (simp add: heart_y_poly c_def)
qed

lemma heart_y_upper: "snd (getHeartPoint t) \<le> 26"
proof -
  have "- 1 \<le> cos (2 * t)" "- 1 \<le> cos (3 * t)" "- 1 \<le> cos (4 * t)" "cos t \<le> 1"
    by simp_all
  then have "13 * cos t - 5 * cos (2 * t) - 2 * cos (3 * t) - cos (4 * t) \<le> 26"
    by linarith
  then show ?thesis by (simp add: getHeartPoint_def)
qed

lemma heart_x_bound: "\<bar>fst (getHeartPoint t)\<bar> \<le> 16"
proof -
  have "\<bar>sin t\<bar> ^ 3 \<le> 1" by (intro power_le_one) auto
  then show ?thesis by (simp add: getHeartPoint_def abs_mult power_abs)
qed

text \<open>
  Claim C8. For every parameter \<open>t\<close> the shape sampler returns exactly the point with
  \<open>x = 16 * sin(t)^3\<close> and \<open>y = 13*cos(t) - 5*cos(2t) - 2*cos(3t) - cos(4t)\<close>. It is
  a function of \<open>t\<close> alone: it takes no state and no random source, returns none, and
  has a value at every \<open>t\<close>.
\<close>

theorem getHeartPoint_formula:
  "getHeartPoint t =
     (16 * sin t ^ 3, 13 * cos t - 5 * cos (2 * t) - 2 * cos (3 * t) - cos (4 * t))"
  by (simp add: getHeartPoint_def)

text \<open>
  Claim C9, as the specification states it: for all \<open>t\<close> in \<open>[0, 2\<pi>)\<close> the output has
  \<open>|x| \<le> 16\<close> and \<open>y\<close> in \<open>[-1, 26]\<close>. The lower bound of \<open>y\<close> fails: at \<open>t = \<pi>\<close>,
  the bottom tip of the heart, \<open>y = -13 - 5 + 2 - 1 = -17\<close>.
\<close>

theorem heart_range_counterexample:
  "0 \<le> pi \<and> pi < 2 * pi \<and> snd (getHeartPoint pi) = - 17 \<and> \<not> (- 1 \<le> snd (getHeartPoint pi))"
  by (simp add: getHeartPoint_def)

text \<open>
  Claim C9, amended: for every \<open>t\<close> (so for all \<open>t\<close> in \<open>[0, 2\<pi>)\<close>) the output has
  \<open>|x| \<le> 16\<close> and \<open>y\<close> in \<open>[-17, 26]\<close>; the lower bound is attained at \<open>t = \<pi>\<close>.
\<close>

theorem heart_range:
  "\<bar>fst (getHeartPoint t)\<bar> \<le> 16 \<and> - 17 \<le> snd (getHeartPoint t) \<and> snd (getHeartPoint t) \<le> 26"
  by (simp add: heart_x_bound heart_y_lower heart_y_upper)

section \<open>The frame loop, particle by particle\<close>

lemma third_neq: "j div 3 \<noteq> i \<Longrightarrow> j \<noteq> i * 3 \<and> j \<noteq> i * 3 + 1 \<and> j \<noteq> i * 3 + 2"
  for i j :: nat
  by auto

lemma vec_at_cong:
  "(\<And>j. j div 3 = i \<Longrightarrow> xs ! j = ys ! j) \<Longrightarrow> vec_at xs i = vec_at ys i"
  by (simp add: vec_at_def)

lemma animate_body_length_snd:
  "length (snd (animate_body cfg time targets i st)) = length (snd st)"
  by (simp add: animate_body_def Let_def split_def)

text \<open>A pass of the body leaves the entries of every other particle alone.\<close>

lemma animate_body_other:
  assumes "j div 3 \<noteq> i"
  shows "fst (animate_body cfg time targets i st) ! j = fst st ! j"
    and "snd (animate_body cfg time targets i st) ! j = snd st ! j"
  using third_neq [OF assms] by (simp_all add: animate_body_def Let_def split_def)

text \<open>On its own particle, a pass of the body is the step of the specification.\<close>

lemma animate_body_at:
  assumes "i * 3 + 2 < length (fst st)" and "length (snd st) = length (fst st)"
  shows "(vec_at (fst (animate_body cfg time targets i st)) i,
          vec_at (snd (animate_body cfg time targets i st)) i) =
         spec_integrator_step (formationSpeed cfg) time
           (vec_at (fst st) i) (vec_at (snd st) i) (vec_at targets i)"
  using assms by (simp add: animate_body_def spec_integrator_step_def vec_at_def Let_def split_def)

lemma animate_loop_length:
  "length (fst (animate_loop cfg time targets i st)) = length (fst st) \<and>
   length (snd (animate_loop cfg time targets i st)) = length (snd st)"
proof (induction cfg time targets i st rule: animate_loop.induct)
  case (1 cfg time targets i st)
  show ?case
  proof (cases "real i < real (length (fst st)) / 3")
    case True
    with 1 show ?thesis
      by (subst (1 2) animate_loop.simps) (simp add: animate_body_length animate_body_length_snd)
  next
    case False
    then show ?thesis by (subst (1 2) animate_loop.simps) simp
  qed
qed

text \<open>The loop entered at \<open>i\<close> leaves the particles before \<open>i\<close> alone.\<close>

lemma animate_loop_below:
  "j div 3 < i \<Longrightarrow>
   fst (animate_loop cfg time targets i st) ! j = fst st ! j \<and>
   snd (animate_loop cfg time targets i st) ! j = snd st ! j"
proof (induction cfg time targets i st rule: animate_loop.induct)
  case (1 cfg time targets i st)
  show ?case
  proof (cases "real i < real (length (fst st)) / 3")
    case True
    have "j div 3 < i + 1" and "j div 3 \<noteq> i" using "1.prems" by simp_all
    with 1 True show ?thesis
      by (subst (1 2) animate_loop.simps) (simp add: animate_body_other)
  next
    case False
    then show ?thesis by (subst (1 2) animate_loop.simps) simp
  qed
qed

text \<open>The loop entered at \<open>i\<close> takes every later particle through one step.\<close>

lemma animate_loop_at:
  assumes "i \<le> p" and "p * 3 + 2 < length (fst st)" and "length (snd st) = length (fst st)"
  shows "(vec_at (fst (animate_loop cfg time targets i st)) p,
          vec_at (snd (animate_loop cfg time targets i st)) p) =
         spec_integrator_step (formationSpeed cfg) time
           (vec_at (fst st) p) (vec_at (snd st) p) (vec_at targets p)"
  using assms
proof (induction cfg time targets i st rule: animate_loop.induct)
  case (1 cfg time targets i st)
  let ?st' = "animate_body cfg time targets i st"
  have run: "real i < real (length (fst st)) / 3" using "1.prems" by simp
  have unroll: "animate_loop cfg time targets i st = animate_loop cfg time targets (i + 1) ?st'"
    using run by (subst animate_loop.simps) simp
  have len: "p * 3 + 2 < length (fst ?st')" "length (snd ?st') = length (fst ?st')"
    using "1.prems" by (simp_all add: animate_body_length animate_body_length_snd)
  show ?case
  proof (cases "i = p")
    case True
    have "vec_at (fst (animate_loop cfg time targets (i + 1) ?st')) p = vec_at (fst ?st') p"
      and "vec_at (snd (animate_loop cfg time targets (i + 1) ?st')) p = vec_at (snd ?st') p"
      using True by (auto intro!: vec_at_cong simp: animate_loop_below)
    then show ?thesis
      unfolding unroll using animate_body_at [of i st cfg time targets] "1.prems" True by simp
  next
    case False
    then have "i + 1 \<le> p" using "1.prems" by simp
    from "1.IH" [OF run this len]
    have "(vec_at (fst (animate_loop cfg time targets (i + 1) ?st')) p,
           vec_at (snd (animate_loop cfg time targets (i + 1) ?st')) p) =
          spec_integrator_step (formationSpeed cfg) time
            (vec_at (fst ?st') p) (vec_at (snd ?st') p) (vec_at targets p)" .
    moreover have "vec_at (fst ?st') p = vec_at (fst st) p" "vec_at (snd ?st') p = vec_at (snd st) p"
      using False by (auto intro!: vec_at_cong simp: animate_body_other)
    ultimately show ?thesis unfolding unroll by simp
  qed
qed

lemma animateSystem_fields:
  "target (animateSystem cfg s time) = target s"
  "color (animateSystem cfg s time) = color s"
  "length (position (animateSystem cfg s time)) = length (position s)"
  "length (velocity (animateSystem cfg s time)) = length (velocity s)"
  "rotation_y (animateSystem cfg s time) = sin (time * 0.2) * 0.15"
  using animate_loop_length [of cfg time "target s" 0 "(position s, velocity s)"]
  by (simp_all add: animateSystem_def Let_def split_def)

lemma animateSystem_shaped: "shaped n s \<Longrightarrow> shaped n (animateSystem cfg s time)"
  by (simp add: shaped_def animateSystem_fields)

lemma animateSystem_at:
  assumes "shaped n s" and "i < n"
  shows "(vec_at (position (animateSystem cfg s time)) i,
          vec_at (velocity (animateSystem cfg s time)) i) =
         spec_integrator_step (formationSpeed cfg) time
           (vec_at (position s) i) (vec_at (velocity s) i) (vec_at (target s) i)"
proof -
  have "i * 3 + 2 < length (position s)" "length (velocity s) = length (position s)"
    using assms by (simp_all add: shaped_def)
  from animate_loop_at [of 0 i "(position s, velocity s)" cfg time "target s"] this
  show ?thesis by (simp add: animateSystem_def Let_def split_def)
qed

text \<open>
  Claim C1. For every particle and every frame the integrator performs, in this order:
  position += velocity on each axis; velocity *= 0.94 on each axis; breath =
  sin(time*1.5 + target.x*0.1) * 0.5; and, only when \<open>|velocity.x| < 0.1\<close> after the
  damping (the test reads the x component alone), a blend of the position towards
  (target.x, target.y, target.z + breath) by the fraction \<open>formationSpeed\<close>, which is
  0.025 in \<open>CONFIG\<close>, on each axis; when the test fails the three axes keep the
  position that the first step gave them. The loop over the flat arrays is compared
  with \<^const>\<open>spec_integrator_step\<close>, which is written from these words.
\<close>

theorem integrator_step_in_order:
  assumes "shaped n s" and "i < n"
  shows "(vec_at (position (animateSystem cfg s time)) i,
          vec_at (velocity (animateSystem cfg s time)) i) =
         spec_integrator_step (formationSpeed cfg) time
           (vec_at (position s) i) (vec_at (velocity s) i) (vec_at (target s) i)
         \<and> formationSpeed CONFIG = 0.025"
  using animateSystem_at [OF assms, of cfg time] by (simp add: CONFIG_def)

text \<open>
  An instance: the velocity \<open>0.1\<close> on x passes the test only because it is damped to
  \<open>0.094\<close> first, and the blend starts from the position already moved.
\<close>

theorem integrator_step_in_order_witness:
  "shaped 1 (one_particle (0, 0, 0) (0.1, 2, 0) (0, 10, 0)) \<and> (0::nat) < 1 \<and>
   vec_at (position (animateSystem CONFIG (one_particle (0, 0, 0) (0.1, 2, 0) (0, 10, 0)) 0)) 0
     = (0.0975, 2.2, 0) \<and>
   vec_at (velocity (animateSystem CONFIG (one_particle (0, 0, 0) (0.1, 2, 0) (0, 10, 0)) 0)) 0
     = (0.094, 1.88, 0)"
  using integrator_step_in_order [of 1 "one_particle (0, 0, 0) (0.1, 2, 0) (0, 10, 0)" 0 CONFIG 0]
  by (simp add: one_particle_def shaped_def spec_integrator_step_def vec_at_def CONFIG_def)

section \<open>Rounding: error, grid and order\<close>

lemma round_half_even_error: "\<bar>of_int (round_half_even y) - y\<bar> \<le> 1 / 2"
proof -
  have "of_int \<lfloor>y\<rfloor> \<le> y" "y < of_int \<lfloor>y\<rfloor> + 1" by linarith+
  then show ?thesis by (auto simp: round_half_even_def Let_def)
qed

lemma round_half_even_near:
  assumes "\<bar>y - of_int k\<bar> < 1 / 2"
  shows "round_half_even y = k"
proof -
  have "\<bar>of_int (round_half_even y) - (of_int k :: real)\<bar> < 1"
    using round_half_even_error [of y] assms by linarith
  then have "\<bar>round_half_even y - k\<bar> < 1" by (metis of_int_abs of_int_diff of_int_less_1_iff)
  then show ?thesis by linarith
qed


lemma above_power_int_pos: "2 powi e \<le> \<bar>x\<bar> \<Longrightarrow> 0 < \<bar>x::real\<bar>"
proof -
  assume "2 powi e \<le> \<bar>x\<bar>"
  moreover have "(0::real) < 2 powi e" by simp
  ultimately show ?thesis by linarith
qed

lemma above_power_int_nonzero: "2 powi e \<le> \<bar>x\<bar> \<Longrightarrow> x \<noteq> (0::real)"
  using above_power_int_pos [of e x] by auto

lemma two_powr_int: "2 powr (of_int n) = (2::real) powi n"
  by (simp add: powr_real_of_int')

lemma binade_bounds:
  assumes "x \<noteq> 0"
  shows "2 powi (binade x) \<le> \<bar>x\<bar>" and "\<bar>x\<bar> < 2 powi (binade x + 1)"
proof -
  have pos: "0 < \<bar>x\<bar>" using assms by simp
  have "of_int (binade x) \<le> log 2 \<bar>x\<bar>" by (simp add: binade_def)
  then have "2 powr (of_int (binade x)) \<le> \<bar>x\<bar>" using pos by (simp add: le_log_iff)
  then show "2 powi (binade x) \<le> \<bar>x\<bar>" by (simp add: powr_real_of_int')
  have "log 2 \<bar>x\<bar> < of_int (binade x + 1)" unfolding binade_def by linarith
  then have "\<bar>x\<bar> < 2 powr (of_int (binade x + 1))" using pos by (simp add: log_less_iff)
  then show "\<bar>x\<bar> < 2 powi (binade x + 1)" by (simp only: two_powr_int)
qed

lemma binade_eq:
  assumes "2 powi e \<le> \<bar>x\<bar>" and "\<bar>x\<bar> < 2 powi (e + 1)"
  shows "binade x = e"
proof -
  have pos: "0 < \<bar>x\<bar>" using assms(1) by (rule above_power_int_pos)
  have "2 powr (of_int e) \<le> \<bar>x\<bar>" using assms(1) by (simp add: powr_real_of_int')
  then have a: "of_int e \<le> log 2 \<bar>x\<bar>" using pos by (simp add: le_log_iff)
  have "\<bar>x\<bar> < 2 powr (of_int (e + 1))" using assms(2) by (simp only: two_powr_int)
  then have "log 2 \<bar>x\<bar> < of_int (e + 1)" using pos by (simp add: log_less_iff)
  then have b: "log 2 \<bar>x\<bar> < of_int e + 1" by simp
  show ?thesis unfolding binade_def using a b by (rule floor_unique)
qed

lemma binade_mono:
  assumes "x \<noteq> 0" and "\<bar>x\<bar> \<le> \<bar>z\<bar>"
  shows "binade x \<le> binade z"
proof -
  have "log 2 \<bar>x\<bar> \<le> log 2 \<bar>z\<bar>" using assms by simp
  then show ?thesis unfolding binade_def by (rule floor_mono)
qed


lemma quantum_pos: "0 < quantum p emin x"
  by (simp add: quantum_def)

text \<open>Half a quantum bounds the rounding error.\<close>

lemma round_binary_error: "\<bar>round_binary p emin x - x\<bar> \<le> quantum p emin x / 2"
proof (cases "x = 0")
  case True
  then show ?thesis using quantum_pos [of p emin x] by (simp add: round_binary_def)
next
  case False
  let ?q = "quantum p emin x"
  have q: "0 < ?q" by (rule quantum_pos)
  have "\<bar>of_int (round_half_even (x / ?q)) - x / ?q\<bar> \<le> 1 / 2"
    by (rule round_half_even_error)
  then have "\<bar>of_int (round_half_even (x / ?q)) - x / ?q\<bar> * ?q \<le> 1 / 2 * ?q"
    using q by (intro mult_right_mono) auto
  moreover have "\<bar>of_int (round_half_even (x / ?q)) - x / ?q\<bar> * ?q =
      \<bar>of_int (round_half_even (x / ?q)) * ?q - x\<bar>"
  proof -
    have "of_int (round_half_even (x / ?q)) * ?q - x =
        (of_int (round_half_even (x / ?q)) - x / ?q) * ?q"
      using q by (simp add: left_diff_distrib)
    then show ?thesis using q by (simp add: abs_mult)
  qed
  ultimately show ?thesis using False by (simp add: round_binary_def)
qed

text \<open>The quantum of a normal number is at most \<open>2 ^ (1 - p)\<close> times the number.\<close>

lemma quantum_normal:
  assumes "2 powi emin \<le> \<bar>x\<bar>"
  shows "quantum p emin x \<le> \<bar>x\<bar> * 2 powi (1 - int p)"
proof -
  have nz: "x \<noteq> 0" using assms by (rule above_power_int_nonzero)
  have "emin \<le> binade x"
  proof (rule ccontr)
    assume "\<not> emin \<le> binade x"
    then have "binade x + 1 \<le> emin" by simp
    then have "(2::real) powi (binade x + 1) \<le> 2 powi emin" by (intro power_int_increasing) auto
    then show False using binade_bounds(2) [OF nz] assms by linarith
  qed
  then have "quantum p emin x = 2 powi (binade x + (1 - int p))"
    by (simp add: quantum_def max_def algebra_simps)
  also have "\<dots> = 2 powi (binade x) * 2 powi (1 - int p)" by (simp add: power_int_add)
  also have "\<dots> \<le> \<bar>x\<bar> * 2 powi (1 - int p)"
    using binade_bounds(1) [OF nz] by (intro mult_right_mono) auto
  finally show ?thesis .
qed

lemma quantum_subnormal:
  assumes "x \<noteq> 0" and "\<bar>x\<bar> < 2 powi emin"
  shows "quantum p emin x = 2 powi (emin - (int p - 1))"
proof -
  have "binade x < emin"
  proof (rule ccontr)
    assume "\<not> binade x < emin"
    then have "(2::real) powi emin \<le> 2 powi (binade x)" by (intro power_int_increasing) auto
    then show False using binade_bounds(1) [OF assms(1)] assms(2) by linarith
  qed
  then show ?thesis by (simp add: quantum_def max_def)
qed

lemma quantum_mono:
  assumes "x \<noteq> 0" and "\<bar>x\<bar> \<le> \<bar>z\<bar>"
  shows "quantum p emin x \<le> quantum p emin z"
  unfolding quantum_def using binade_mono [OF assms] by (intro power_int_increasing) auto

lemma quantum_bound:
  assumes "x \<noteq> 0"
  shows "quantum p emin x \<le> max (\<bar>x\<bar> * 2 powi (1 - int p)) (2 powi (emin - (int p - 1)))"
proof (cases "2 powi emin \<le> \<bar>x\<bar>")
  case True
  then show ?thesis using quantum_normal [of emin x p] by simp
next
  case False
  then show ?thesis using quantum_subnormal [of x emin p] assms by simp
qed











section \<open>Damping in the Float32Array\<close>

text \<open>
  Without rounding, a frame of \<open>animateSystem\<close> multiplies every component of
  every velocity by \<open>0.94\<close>. The function \<open>damp\<close> is this product with the
  rounding of the source, and the properties below are proved of it.
\<close>

lemma spec_step_velocity:
  "snd (spec_integrator_step f time p v tg) =
     (case v of (x, y, z) \<Rightarrow> (x * 0.94, y * 0.94, z * 0.94))"
  by (simp add: spec_integrator_step_def Let_def split: prod.splits)

lemma tick_velocity:
  assumes "shaped n s" and "i < n"
  shows "vec_at (velocity (animateSystem cfg s time)) i =
         (case vec_at (velocity s) i of (x, y, z) \<Rightarrow> (x * 0.94, y * 0.94, z * 0.94))"
proof -
  have "vec_at (velocity (animateSystem cfg s time)) i =
        snd (spec_integrator_step (formationSpeed cfg) time
           (vec_at (position s) i) (vec_at (velocity s) i) (vec_at (target s) i))"
    using animateSystem_at [OF assms, of cfg time] by (metis snd_conv)
  then show ?thesis by (simp add: spec_step_velocity)
qed

lemma round_binary_zero: "round_binary p emin 0 = 0"
  by (simp add: round_binary_def)

lemma damp_zero: "damp 0 = 0"
  by (simp add: damp_def to_binary32_def to_binary64_def round_binary_zero)

lemma literal_094: "\<bar>to_binary64 0.94 - 0.94\<bar> \<le> 2 powi (- 54)"
proof -
  have "binade 0.94 = - 1" by (rule binade_eq) simp_all
  then have "quantum 53 (- 1022) 0.94 = 2 powi (- 53)" by (simp add: quantum_def)
  then show ?thesis
    using round_binary_error [of 53 "- 1022" "0.94"] by (simp add: to_binary64_def)
qed

lemma product_094:
  assumes "2 powi (- 149) \<le> \<bar>v\<bar>"
  shows "\<bar>to_binary64 (v * to_binary64 0.94) - 0.94 * v\<bar> \<le> \<bar>v\<bar> * 2 powi (- 50)"
proof -
  define c where "c = to_binary64 0.94"
  have c: "\<bar>c - 0.94\<bar> \<le> 2 powi (- 54)" unfolding c_def by (rule literal_094)
  have "(2::real) powi (- 54) \<le> 1 / 100" by simp
  with c have "\<bar>c - 0.94\<bar> \<le> 1 / 100" by linarith
  then have "\<bar>c - 47 / 50\<bar> \<le> 1 / 100" by simp
  then have c_lo: "1 / 2 \<le> c" and c_hi: "c \<le> 1" by linarith+
  have v: "0 < \<bar>v\<bar>" using assms by (rule above_power_int_pos)
  have "(2::real) powi (- 1022) \<le> 2 powi (- 150)" by (intro power_int_increasing) auto
  also have "\<dots> = 2 powi (- 149) * (1 / 2)" by simp
  also have "\<dots> \<le> \<bar>v\<bar> * c" using assms c_lo by (intro mult_mono) auto
  finally have normal: "2 powi (- 1022) \<le> \<bar>v * c\<bar>" using c_lo by (simp add: abs_mult)
  have "\<bar>to_binary64 (v * c) - v * c\<bar> \<le> quantum 53 (- 1022) (v * c) / 2"
    unfolding to_binary64_def by (rule round_binary_error)
  also have "\<dots> \<le> (\<bar>v * c\<bar> * 2 powi (1 - int 53)) / 2"
    using quantum_normal [OF normal, of 53] by simp
  also have "\<dots> = \<bar>v\<bar> * c * 2 powi (- 53)" using c_lo by (simp add: abs_mult)
  also have "\<dots> \<le> \<bar>v\<bar> * 1 * 2 powi (- 53)"
    using c_hi c_lo v by (intro mult_mono) auto
  finally have e1: "\<bar>to_binary64 (v * c) - v * c\<bar> \<le> \<bar>v\<bar> * 2 powi (- 53)" by simp
  have "\<bar>v * c - 0.94 * v\<bar> = \<bar>v\<bar> * \<bar>c - 0.94\<bar>"
    by (simp add: abs_mult [symmetric] algebra_simps)
  also have "\<dots> \<le> \<bar>v\<bar> * 2 powi (- 54)" using c v by (intro mult_left_mono) auto
  finally have e2: "\<bar>v * c - 0.94 * v\<bar> \<le> \<bar>v\<bar> * 2 powi (- 54)" .
  have "\<bar>to_binary64 (v * c) - 0.94 * v\<bar> \<le> \<bar>v\<bar> * 2 powi (- 53) + \<bar>v\<bar> * 2 powi (- 54)"
    using e1 e2 by linarith
  also have "\<dots> \<le> \<bar>v\<bar> * 2 powi (- 50)" using v by simp
  finally show ?thesis unfolding c_def .
qed


text \<open>One damping of a stored component, against the exact product.\<close>

lemma damp_error:
  assumes "2 powi (- 149) \<le> \<bar>v\<bar>"
  shows "\<bar>damp v - 0.94 * v\<bar> \<le> \<bar>v\<bar> * 2 powi (- 23) + 2 powi (- 150)"
proof -
  define y where "y = to_binary64 (v * to_binary64 0.94)"
  have v: "0 < \<bar>v\<bar>" using assms by (rule above_power_int_pos)
  have y: "\<bar>y - 0.94 * v\<bar> \<le> \<bar>v\<bar> * 2 powi (- 50)"
    unfolding y_def using assms by (rule product_094)
  have "\<bar>v\<bar> * 2 powi (- 50) \<le> \<bar>v\<bar> * (1 / 100)" using v by simp
  with y have "\<bar>y - 47 / 50 * v\<bar> \<le> \<bar>v\<bar> * (1 / 100)" by simp
  then have y_lo: "\<bar>v\<bar> * (1 / 2) \<le> \<bar>y\<bar>" and y_hi: "\<bar>y\<bar> \<le> \<bar>v\<bar>" by linarith+
  have nz: "y \<noteq> 0" using y_lo v by auto
  have "\<bar>to_binary32 y - y\<bar> \<le> quantum 24 (- 126) y / 2"
    unfolding to_binary32_def by (rule round_binary_error)
  also have "\<dots> \<le> max (\<bar>y\<bar> * 2 powi (1 - int 24)) (2 powi (- 126 - (int 24 - 1))) / 2"
    using quantum_bound [OF nz, of 24 "- 126"] by simp
  also have "\<dots> \<le> (\<bar>v\<bar> * 2 powi (- 23) + 2 powi (- 149)) / 2"
  proof -
    have "\<bar>y\<bar> * 2 powi (- 23) \<le> \<bar>v\<bar> * 2 powi (- 23)"
      using y_hi by (intro mult_right_mono) auto
    moreover have "0 \<le> \<bar>v\<bar> * 2 powi (- 23)" "(0::real) \<le> 2 powi (- 149)" by simp_all
    ultimately have "max (\<bar>y\<bar> * 2 powi (- 23)) (2 powi (- 149))
        \<le> \<bar>v\<bar> * 2 powi (- 23) + 2 powi (- 149)" by linarith
    then show ?thesis by simp
  qed
  finally have r: "\<bar>to_binary32 y - y\<bar> \<le> \<bar>v\<bar> * 2 powi (- 24) + 2 powi (- 150)" by simp
  have "\<bar>v\<bar> * 2 powi (- 24) + \<bar>v\<bar> * 2 powi (- 50) \<le> \<bar>v\<bar> * 2 powi (- 23)" using v by simp
  with r y have "\<bar>to_binary32 y - 0.94 * v\<bar> \<le> \<bar>v\<bar> * 2 powi (- 23) + 2 powi (- 150)"
    by linarith
  then show ?thesis by (simp add: damp_def y_def)
qed

text \<open>From nine steps of \<open>2 ^ -149\<close> upwards a damping shrinks the component.\<close>

lemma damp_decreases:
  assumes "9 * 2 powi (- 149) \<le> \<bar>v\<bar>"
  shows "\<bar>damp v\<bar> < \<bar>v\<bar>"
proof -
  have "(2::real) powi (- 149) \<le> 9 * 2 powi (- 149)" by simp
  with assms have least: "2 powi (- 149) \<le> \<bar>v\<bar>" by linarith
  from damp_error [OF this]
  have e: "\<bar>damp v - 47 / 50 * v\<bar> \<le> \<bar>v\<bar> * 2 powi (- 23) + 2 powi (- 150)" by simp
  have "\<bar>v\<bar> * 2 powi (- 23) \<le> \<bar>v\<bar> * (1 / 1000)" by (intro mult_left_mono) auto
  moreover have "(2::real) powi (- 150) = 2 powi (- 149) * (1 / 2)" by simp
  ultimately have "\<bar>damp v - 47 / 50 * v\<bar> \<le> \<bar>v\<bar> * (1 / 1000) + 2 powi (- 149) * (1 / 2)"
    using e by linarith
  moreover have "2 powi (- 149) * (1 / 2) \<le> \<bar>v\<bar> * (1 / 18)" using assms by linarith
  moreover have "0 < \<bar>v\<bar>" using least by (rule above_power_int_pos)
  ultimately show ?thesis by linarith
qed

text \<open>Up to eight steps of \<open>2 ^ -149\<close> a damping returns the component as it was.\<close>

lemma damp_fixed:
  assumes "\<bar>k\<bar> \<le> 8"
  shows "damp (of_int k * 2 powi (- 149)) = of_int k * 2 powi (- 149)"
proof (cases "k = 0")
  case True
  then show ?thesis by (simp add: damp_zero)
next
  case False
  define u :: real where "u = 2 powi (- 149)"
  define v where "v = of_int k * u"
  define y where "y = to_binary64 (v * to_binary64 0.94)"
  have u: "0 < u" by (simp add: u_def)
  have k1: "1 \<le> \<bar>of_int k :: real\<bar>" using False by (simp flip: of_int_abs)
  have k8: "\<bar>of_int k :: real\<bar> \<le> 8" using assms by (simp flip: of_int_abs)
  have av: "\<bar>v\<bar> = \<bar>of_int k\<bar> * u" using u by (simp add: v_def abs_mult)
  have v_lo: "u \<le> \<bar>v\<bar>" unfolding av using mult_right_mono [OF k1, of u] u by simp
  have v_hi: "\<bar>v\<bar> \<le> 8 * u" unfolding av using k8 u by (intro mult_right_mono) auto
  have "\<bar>y - 0.94 * v\<bar> \<le> \<bar>v\<bar> * 2 powi (- 50)"
    unfolding y_def using v_lo unfolding u_def by (rule product_094)
  moreover have "\<bar>v\<bar> * 2 powi (- 50) \<le> \<bar>v\<bar> * (1 / 1000)" by (intro mult_left_mono) auto
  ultimately have y: "\<bar>y - 47 / 50 * v\<bar> \<le> \<bar>v\<bar> * (1 / 1000)" by simp
  then have y_lo: "\<bar>v\<bar> * (1 / 2) \<le> \<bar>y\<bar>" and y_hi: "\<bar>y\<bar> \<le> \<bar>v\<bar>" by linarith+
  have nz: "y \<noteq> 0" using y_lo v_lo u by auto
  have "8 * u < 2 powi (- 126)" by (simp add: u_def)
  then have "\<bar>y\<bar> < 2 powi (- 126)" using y_hi v_hi by linarith
  then have q: "quantum 24 (- 126) y = u"
    using quantum_subnormal [OF nz, of "- 126" 24] by (simp add: u_def)
  have "\<bar>y - v\<bar> \<le> \<bar>v\<bar> * (61 / 1000)" using y by linarith
  also have "\<dots> \<le> 8 * u * (61 / 1000)" using v_hi by (intro mult_right_mono) auto
  also have "\<dots> < u * (1 / 2)" using u by simp
  finally have "\<bar>y - v\<bar> < u * (1 / 2)" .
  then have "\<bar>y - v\<bar> / u < 1 / 2" using u by (simp add: field_simps)
  moreover have "\<bar>y - v\<bar> / u = \<bar>y / u - of_int k\<bar>"
  proof -
    have "y / u - of_int k = (y - v) / u" using u by (simp add: v_def diff_divide_distrib)
    then show ?thesis using u by simp
  qed
  ultimately have "round_half_even (y / u) = k" by (intro round_half_even_near) simp
  then have "to_binary32 y = v" using nz q by (simp add: to_binary32_def round_binary_def v_def)
  then show ?thesis by (simp add: damp_def y_def v_def u_def)
qed



lemma damp_not_larger: "\<bar>damp (of_int k * 2 powi (- 149))\<bar> \<le> \<bar>of_int k * 2 powi (- 149)\<bar>"
proof (cases "\<bar>k\<bar> \<le> 8")
  case True
  show ?thesis by (simp only: damp_fixed [OF True] order_refl)
next
  case False
  then have "9 \<le> \<bar>k\<bar>" by simp
  then have "9 \<le> \<bar>of_int k :: real\<bar>" by (simp flip: of_int_abs)
  then have "9 * 2 powi (- 149) \<le> \<bar>of_int k :: real\<bar> * 2 powi (- 149)"
    by (intro mult_right_mono) auto
  then have "9 * 2 powi (- 149) \<le> \<bar>of_int k * 2 powi (- 149) :: real\<bar>"
    by (simp add: abs_mult)
  from damp_decreases [OF this] show ?thesis by simp
qed

























section \<open>Determinism of the frame\<close>

text \<open>
  Claim C10. The integrator step is deterministic: two systems with equal position,
  target and velocity buffers, stepped at the same elapsed time, end with equal position
  and velocity buffers and an equal rotation angle, whatever their colours, materials,
  flags and former rotation are. \<^const>\<open>animateSystem\<close> takes no random source, unlike
  the initialiser and the impulse generator.
\<close>

theorem integrator_deterministic:
  assumes "position s1 = position s2" and "target s1 = target s2" and "velocity s1 = velocity s2"
  shows "position (animateSystem cfg s1 time) = position (animateSystem cfg s2 time) \<and>
         velocity (animateSystem cfg s1 time) = velocity (animateSystem cfg s2 time) \<and>
         rotation_y (animateSystem cfg s1 time) = rotation_y (animateSystem cfg s2 time)"
  using assms by (simp add: animateSystem_def Let_def split_def)

theorem integrator_deterministic_witness:
  "position (one_particle (1, 2, 3) (3, 0, 4) (0, 10, 0)) =
     position ((one_particle (1, 2, 3) (3, 0, 4) (0, 10, 0))
        \<lparr>color := [0, 0, 0], needsUpdate := True, rotation_y := 1\<rparr>) \<and>
   position (animateSystem CONFIG (one_particle (1, 2, 3) (3, 0, 4) (0, 10, 0)) 5) =
     position (animateSystem CONFIG ((one_particle (1, 2, 3) (3, 0, 4) (0, 10, 0))
        \<lparr>color := [0, 0, 0], needsUpdate := True, rotation_y := 1\<rparr>) 5) \<and>
   velocity (animateSystem CONFIG (one_particle (1, 2, 3) (3, 0, 4) (0, 10, 0)) 5) =
     velocity (animateSystem CONFIG ((one_particle (1, 2, 3) (3, 0, 4) (0, 10, 0))
        \<lparr>color := [0, 0, 0], needsUpdate := True, rotation_y := 1\<rparr>) 5) \<and>
   rotation_y (animateSystem CONFIG (one_particle (1, 2, 3) (3, 0, 4) (0, 10, 0)) 5) =
     rotation_y (animateSystem CONFIG ((one_particle (1, 2, 3) (3, 0, 4) (0, 10, 0))
        \<lparr>color := [0, 0, 0], needsUpdate := True, rotation_y := 1\<rparr>) 5)"
  using integrator_deterministic [of "one_particle (1, 2, 3) (3, 0, 4) (0, 10, 0)"
     "(one_particle (1, 2, 3) (3, 0, 4) (0, 10, 0))
        \<lparr>color := [0, 0, 0], needsUpdate := True, rotation_y := 1\<rparr>" CONFIG 5]
  by simp

section \<open>The impulse loop, particle by particle\<close>

lemma explode_body_length:
  "length (fst (explode_body cfg rnd pos i st)) = length (fst st)"
  by (simp add: explode_body_def random_def Let_def split_def)

lemma explode_body_draws:
  "snd (explode_body cfg rnd pos i st) = Suc (snd st)"
  by (simp add: explode_body_def random_def Let_def split_def)

lemma explode_body_other:
  assumes "j div 3 \<noteq> i"
  shows "fst (explode_body cfg rnd pos i st) ! j = fst st ! j"
  using third_neq [OF assms] by (simp add: explode_body_def random_def Let_def split_def)

lemma explode_body_at:
  assumes "i * 3 + 2 < length (fst st)"
  shows "vec_at (fst (explode_body cfg rnd pos i st)) i =
         spec_impulse (rnd (snd st) * explosionForce cfg + 1) (vec_at pos i) (vec_at (fst st) i)"
  using assms
  by (simp add: explode_body_def spec_impulse_def explode_len_def magnitude_def random_def
      vec_at_def Let_def split_def)

lemma explode_loop_length:
  "length (fst (explode_loop cfg rnd pos i st)) = length (fst st)"
proof (induction cfg rnd pos i st rule: explode_loop.induct)
  case (1 cfg rnd pos i st)
  show ?case
  proof (cases "real i < real (length pos) / 3")
    case True
    with 1 show ?thesis by (subst explode_loop.simps) (simp add: explode_body_length)
  next
    case False
    then show ?thesis by (subst explode_loop.simps) simp
  qed
qed

lemma explode_loop_below:
  "j div 3 < i \<Longrightarrow> fst (explode_loop cfg rnd pos i st) ! j = fst st ! j"
proof (induction cfg rnd pos i st rule: explode_loop.induct)
  case (1 cfg rnd pos i st)
  show ?case
  proof (cases "real i < real (length pos) / 3")
    case True
    have "j div 3 < i + 1" and "j div 3 \<noteq> i" using "1.prems" by simp_all
    with 1 True show ?thesis by (subst explode_loop.simps) (simp add: explode_body_other)
  next
    case False
    then show ?thesis by (subst explode_loop.simps) simp
  qed
qed


lemma explode_loop_at:
  assumes "i \<le> p" and "p * 3 + 2 < length pos" and "length (fst st) = length pos"
  shows "vec_at (fst (explode_loop cfg rnd pos i st)) p =
         spec_impulse (rnd (snd st + (p - i)) * explosionForce cfg + 1)
           (vec_at pos p) (vec_at (fst st) p)"
  using assms
proof (induction cfg rnd pos i st rule: explode_loop.induct)
  case (1 cfg rnd pos i st)
  let ?st' = "explode_body cfg rnd pos i st"
  have run: "real i < real (length pos) / 3" using "1.prems" by simp
  have unroll: "explode_loop cfg rnd pos i st = explode_loop cfg rnd pos (i + 1) ?st'"
    using run by (subst explode_loop.simps) simp
  have len: "length (fst ?st') = length pos"
    using "1.prems" by (simp add: explode_body_length)
  show ?case
  proof (cases "i = p")
    case True
    have "vec_at (fst (explode_loop cfg rnd pos (i + 1) ?st')) p = vec_at (fst ?st') p"
      using True by (auto intro!: vec_at_cong simp: explode_loop_below)
    then show ?thesis
      unfolding unroll using explode_body_at [of i st cfg rnd pos] "1.prems" True by simp
  next
    case False
    then have le: "i + 1 \<le> p" using "1.prems" by simp
    from "1.IH" [OF run le "1.prems"(2) len]
    have "vec_at (fst (explode_loop cfg rnd pos (i + 1) ?st')) p =
          spec_impulse (rnd (snd ?st' + (p - (i + 1))) * explosionForce cfg + 1)
            (vec_at pos p) (vec_at (fst ?st') p)" .
    moreover have "vec_at (fst ?st') p = vec_at (fst st) p"
      using False by (auto intro!: vec_at_cong simp: explode_body_other)
    moreover have "snd ?st' + (p - (i + 1)) = snd st + (p - i)"
      using le by (simp add: explode_body_draws)
    ultimately show ?thesis unfolding unroll by simp
  qed
qed

lemma explode_fields:
  "position (fst (explode cfg rnd k s)) = position s"
  "target (fst (explode cfg rnd k s)) = target s"
  "color (fst (explode cfg rnd k s)) = color s"
  "length (velocity (fst (explode cfg rnd k s))) = length (velocity s)"
  by (simp_all add: explode_def Let_def split_def explode_loop_length)

lemma explode_shaped: "shaped n s \<Longrightarrow> shaped n (fst (explode cfg rnd k s))"
  by (simp add: shaped_def explode_fields)


lemma explode_at:
  assumes "shaped n s" and "i < n"
  shows "vec_at (velocity (fst (explode cfg rnd k s))) i =
         spec_impulse (rnd (k + i) * explosionForce cfg + 1)
           (vec_at (position s) i) (vec_at (velocity s) i)"
proof -
  have "i * 3 + 2 < length (position s)" "length (velocity s) = length (position s)"
    using assms by (simp_all add: shaped_def)
  from explode_loop_at [of 0 i "position s" "(velocity s, k)" cfg rnd] this
  show ?thesis by (simp add: explode_def Let_def split_def)
qed








section \<open>The force in double arithmetic\<close>






section \<open>The impulse claim\<close>




text \<open>
  Claim C5. When the position of a particle is exactly the origin, the length is
  replaced by \<open>1\<close>, the direction computed has magnitude zero, the divisor is never
  zero (for any position), and the call leaves the velocity of that particle unchanged.
\<close>

theorem impulse_at_origin:
  assumes "shaped n s" and "i < n" and "vec_at (position s) i = (0, 0, 0)"
  shows "explode_len 0 0 0 = 1 \<and>
         magnitude (0 / explode_len 0 0 0, 0 / explode_len 0 0 0, 0 / explode_len 0 0 0) = 0 \<and>
         (\<forall>x y z. explode_len x y z \<noteq> 0) \<and>
         vec_at (velocity (fst (explode cfg rnd k s))) i = vec_at (velocity s) i"
proof -
  have "vec_at (velocity (fst (explode cfg rnd k s))) i = vec_at (velocity s) i"
    using explode_at [OF assms(1,2), of cfg rnd k] assms(3)
    by (cases "vec_at (velocity s) i") (simp add: spec_impulse_def magnitude_def)
  then show ?thesis by (simp add: explode_len_def magnitude_def Let_def)
qed

theorem impulse_at_origin_witness:
  "shaped 1 (one_particle (0, 0, 0) (1, 2, 3) (5, 5, 5)) \<and> (0::nat) < 1 \<and>
   vec_at (position (one_particle (0, 0, 0) (1, 2, 3) (5, 5, 5))) 0 = (0, 0, 0) \<and>
   explode_len 0 0 0 = 1 \<and>
   vec_at (velocity (fst (explode CONFIG (\<lambda>m. 1 / 2) 0
      (one_particle (0, 0, 0) (1, 2, 3) (5, 5, 5))))) 0 = (1, 2, 3)"
  using impulse_at_origin [of 1 "one_particle (0, 0, 0) (1, 2, 3) (5, 5, 5)" 0 CONFIG "\<lambda>m. 1 / 2" 0]
  by (simp add: one_particle_def shaped_def vec_at_def)

section \<open>What the operations leave alone\<close>

lemma handle_frame:
  "target (mainHeart (handle cfg rnd ev w)) = target (mainHeart w) \<and>
   color (mainHeart (handle cfg rnd ev w)) = color (mainHeart w) \<and>
   target (auraHeart (handle cfg rnd ev w)) = target (auraHeart w) \<and>
   color (auraHeart (handle cfg rnd ev w)) = color (auraHeart w)"
  by (cases ev)
    (simp_all add: pointerdown_def animate_def Let_def split_def explode_fields animateSystem_fields)

lemma run_frame:
  "target (mainHeart (run cfg rnd evs w)) = target (mainHeart w) \<and>
   color (mainHeart (run cfg rnd evs w)) = color (mainHeart w) \<and>
   target (auraHeart (run cfg rnd evs w)) = target (auraHeart w) \<and>
   color (auraHeart (run cfg rnd evs w)) = color (auraHeart w)"
proof (induction evs arbitrary: w)
  case Nil
  show ?case by (simp add: run_def)
next
  case (Cons ev evs)
  have "run cfg rnd (ev # evs) w = run cfg rnd evs (handle cfg rnd ev w)"
    by (simp add: run_def)
  then show ?case using Cons [of "handle cfg rnd ev w"] handle_frame [of cfg rnd ev w] by simp
qed

text \<open>
  Claim C6. Whatever sequence of frames and pointer events follows the initialisation,
  the target and colour buffers of both systems are what they were; each single
  operation leaves them unchanged, and the impulse generator leaves the position buffer
  unchanged as well (it writes velocities only).
\<close>

theorem target_and_color_fixed:
  "target (mainHeart (run cfg rnd evs w)) = target (mainHeart w) \<and>
   color (mainHeart (run cfg rnd evs w)) = color (mainHeart w) \<and>
   target (auraHeart (run cfg rnd evs w)) = target (auraHeart w) \<and>
   color (auraHeart (run cfg rnd evs w)) = color (auraHeart w) \<and>
   target (animateSystem cfg s time) = target s \<and> color (animateSystem cfg s time) = color s \<and>
   target (fst (explode cfg rnd k s)) = target s \<and> color (fst (explode cfg rnd k s)) = color s \<and>
   position (fst (explode cfg rnd k s)) = position s"
  by (simp add: run_frame animateSystem_fields explode_fields)

theorem target_and_color_fixed_witness:
  "target (mainHeart (run CONFIG (\<lambda>m. 1 / 2) [PointerDown, Frame 1, PointerDown, Frame 2]
      \<lparr>mainHeart = one_particle (1, 0, 0) (0, 0, 0) (5, 6, 7),
       auraHeart = one_particle (0, 2, 0) (0, 0, 0) (8, 9, 10),
       ui_hidden = False, drawn = 0\<rparr>)) = [5, 6, 7] \<and>
   color (auraHeart (run CONFIG (\<lambda>m. 1 / 2) [PointerDown, Frame 1, PointerDown, Frame 2]
      \<lparr>mainHeart = one_particle (1, 0, 0) (0, 0, 0) (5, 6, 7),
       auraHeart = one_particle (0, 2, 0) (0, 0, 0) (8, 9, 10),
       ui_hidden = False, drawn = 0\<rparr>)) = [1, 1, 1] \<and>
   position (fst (explode CONFIG (\<lambda>m. 1 / 2) 0 (one_particle (1, 0, 0) (0, 0, 0) (5, 6, 7))))
     = [1, 0, 0]"
  using target_and_color_fixed [of CONFIG "\<lambda>m. 1 / 2" "[PointerDown, Frame 1, PointerDown, Frame 2]"
      "\<lparr>mainHeart = one_particle (1, 0, 0) (0, 0, 0) (5, 6, 7),
       auraHeart = one_particle (0, 2, 0) (0, 0, 0) (8, 9, 10),
       ui_hidden = False, drawn = 0\<rparr>" "one_particle (1, 0, 0) (0, 0, 0) (5, 6, 7)" 0 0]
  by (simp add: one_particle_def)

section \<open>The initialiser loop, particle by particle\<close>

lemma create_body_lengths:
  "length (posArray (create_body cfg isAura rnd i b)) = length (posArray b)"
  "length (targetArray (create_body cfg isAura rnd i b)) = length (targetArray b)"
  "length (colArray (create_body cfg isAura rnd i b)) = length (colArray b)"
  "length (velArray (create_body cfg isAura rnd i b)) = length (velArray b)"
  by (simp_all add: create_body_def random_def Let_def split_def)



lemma create_loop_lengths:
  "length (posArray (create_loop cfg isAura rnd count i b)) = length (posArray b) \<and>
   length (targetArray (create_loop cfg isAura rnd count i b)) = length (targetArray b) \<and>
   length (colArray (create_loop cfg isAura rnd count i b)) = length (colArray b) \<and>
   length (velArray (create_loop cfg isAura rnd count i b)) = length (velArray b)"
proof (induction cfg isAura rnd count i b rule: create_loop.induct)
  case (1 cfg isAura rnd count i b)
  show ?case
  proof (cases "i < count")
    case True
    with 1 show ?thesis by (subst (1 2 3 4) create_loop.simps) (simp add: create_body_lengths)
  next
    case False
    then show ?thesis by (subst (1 2 3 4) create_loop.simps) simp
  qed
qed




















section \<open>Start positions and velocities\<close>

lemma start_coordinate:
  assumes "unit_rng rnd"
  shows "(rnd m - 0.5) * 300 \<in> {- 150 .. 150}"
proof -
  have "0 \<le> rnd m" "rnd m < 1" using assms by (simp_all add: unit_rng_def)
  then show ?thesis by (simp add: field_simps)
qed

lemma create_body_bounds:
  assumes "unit_rng rnd" and "set (posArray b) \<subseteq> {- 150 .. 150}" and "set (velArray b) \<subseteq> {0}"
  shows "set (posArray (create_body cfg isAura rnd i b)) \<subseteq> {- 150 .. 150}"
    and "set (velArray (create_body cfg isAura rnd i b)) \<subseteq> {0}"
proof -
  show "set (posArray (create_body cfg isAura rnd i b)) \<subseteq> {- 150 .. 150}"
    unfolding create_body_def random_def Let_def split_def builder.simps fst_conv snd_conv
    by (intro set_update_subsetI assms(2) start_coordinate [OF assms(1)])
  show "set (velArray (create_body cfg isAura rnd i b)) \<subseteq> {0}"
    unfolding create_body_def random_def Let_def split_def builder.simps fst_conv snd_conv
    by (intro set_update_subsetI assms(3)) simp_all
qed

lemma create_loop_bounds:
  assumes "unit_rng rnd" and "set (posArray b) \<subseteq> {- 150 .. 150}" and "set (velArray b) \<subseteq> {0}"
  shows "set (posArray (create_loop cfg isAura rnd count i b)) \<subseteq> {- 150 .. 150} \<and>
         set (velArray (create_loop cfg isAura rnd count i b)) \<subseteq> {0}"
  using assms
proof (induction cfg isAura rnd count i b rule: create_loop.induct)
  case (1 cfg isAura rnd count i b)
  show ?case
  proof (cases "i < count")
    case True
    from "1.IH" [OF True "1.prems"(1) create_body_bounds [OF "1.prems"]]
    show ?thesis using True by (subst (1 2) create_loop.simps) simp
  next
    case False
    then show ?thesis using "1.prems" by (subst (1 2) create_loop.simps) simp
  qed
qed

lemma createParticleSystem_shaped:
  "shaped count (fst (createParticleSystem cfg rnd k count sz opacity isAura))"
  by (simp add: createParticleSystem_def shaped_def Let_def create_loop_lengths)

text \<open>
  Claim C4. After the initialiser has run with any count \<open>N \<ge> 0\<close>, for every draw of
  the random source in \<open>[0, 1)\<close>, the four buffers have \<open>3 N\<close> entries, every entry of
  the velocity buffer is exactly \<open>0\<close>, and every entry of the position buffer lies in
  \<open>[-150, 150]\<close>.
\<close>

theorem initial_velocity_and_position:
  assumes "unit_rng rnd"
  shows "let s = fst (createParticleSystem cfg rnd k count sz opacity isAura)
         in shaped count s \<and>
            (\<forall>j < count * 3. velocity s ! j = 0 \<and> - 150 \<le> position s ! j \<and> position s ! j \<le> 150)"
proof -
  let ?b0 = "\<lparr>posArray = replicate (count * 3) 0, targetArray = replicate (count * 3) 0,
       colArray = replicate (count * 3) 0, velArray = replicate (count * 3) (0::real), draws = k\<rparr>"
  let ?s = "fst (createParticleSystem cfg rnd k count sz opacity isAura)"
  have "set (posArray ?b0) \<subseteq> {- 150 .. 150}" "set (velArray ?b0) \<subseteq> {0}" by auto
  from create_loop_bounds [OF assms this, of cfg isAura count 0]
  have sets: "set (position ?s) \<subseteq> {- 150 .. 150}" "set (velocity ?s) \<subseteq> {0}"
    by (simp_all add: createParticleSystem_def Let_def)
  have sh: "shaped count ?s" by (rule createParticleSystem_shaped)
  have "velocity ?s ! j = 0 \<and> - 150 \<le> position ?s ! j \<and> position ?s ! j \<le> 150"
    if "j < count * 3" for j
  proof -
    have "position ?s ! j \<in> set (position ?s)" "velocity ?s ! j \<in> set (velocity ?s)"
      using that sh by (simp_all add: shaped_def)
    then show ?thesis using sets by auto
  qed
  then show ?thesis unfolding Let_def using sh by blast
qed

theorem initial_velocity_and_position_witness:
  "unit_rng (\<lambda>m. 1 / 4) \<and>
   velocity (fst (createParticleSystem CONFIG (\<lambda>m. 1 / 4) 0 2 1.2 0.3 True)) = [0, 0, 0, 0, 0, 0] \<and>
   position (fst (createParticleSystem CONFIG (\<lambda>m. 1 / 4) 0 2 1.2 0.3 True))
     = [- 75, - 75, - 75, - 75, - 75, - 75] \<and>
   shaped 2 (fst (createParticleSystem CONFIG (\<lambda>m. 1 / 4) 0 2 1.2 0.3 True))"
proof -
  have u: "unit_rng (\<lambda>m. 1 / 4)" by (simp add: unit_rng_def)
  have sh: "shaped 2 (fst (createParticleSystem CONFIG (\<lambda>m. 1 / 4) 0 2 1.2 0.3 True))"
    using initial_velocity_and_position [OF u, of CONFIG 0 2 "1.2" "0.3" True]
    by (simp add: Let_def)
  have "velocity (fst (createParticleSystem CONFIG (\<lambda>m. 1 / 4) 0 2 1.2 0.3 True)) = [0, 0, 0, 0, 0, 0]"
    and "position (fst (createParticleSystem CONFIG (\<lambda>m. 1 / 4) 0 2 1.2 0.3 True))
     = [- 75, - 75, - 75, - 75, - 75, - 75]"
    by (simp_all add: createParticleSystem_def create_loop.simps create_body_def random_def
        Let_def split_def eval_nat_numeral)
  then show ?thesis using u sh by simp
qed

section \<open>Every system the page reaches has the shape\<close>

text \<open>
  The theorems about single particles assume buffers of three entries per particle.
  The two systems of the page start with this shape and keep it through every event.
\<close>

lemma init_world_shaped:
  "shaped (particleCount cfg) (mainHeart (init_world cfg rnd)) \<and>
   shaped (auraCount cfg) (auraHeart (init_world cfg rnd))"
  by (simp add: init_world_def Let_def split_def createParticleSystem_shaped)

lemma handle_shaped:
  assumes "shaped n (mainHeart w)" and "shaped m (auraHeart w)"
  shows "shaped n (mainHeart (handle cfg rnd ev w)) \<and> shaped m (auraHeart (handle cfg rnd ev w))"
  using assms
  by (cases ev)
    (simp_all add: pointerdown_def animate_def Let_def split_def explode_shaped animateSystem_shaped)

lemma run_shaped:
  assumes "shaped n (mainHeart w)" and "shaped m (auraHeart w)"
  shows "shaped n (mainHeart (run cfg rnd evs w)) \<and> shaped m (auraHeart (run cfg rnd evs w))"
  using assms
proof (induction evs arbitrary: w)
  case Nil
  then show ?case by (simp add: run_def)
next
  case (Cons ev evs)
  have "run cfg rnd (ev # evs) w = run cfg rnd evs (handle cfg rnd ev w)"
    by (simp add: run_def)
  moreover have "shaped n (mainHeart (handle cfg rnd ev w))"
    and "shaped m (auraHeart (handle cfg rnd ev w))"
    using handle_shaped [OF Cons.prems] by simp_all
  ultimately show ?case using Cons.IH by simp
qed

lemma reachable_shaped:
  "shaped (particleCount cfg) (mainHeart (run cfg rnd evs (init_world cfg rnd))) \<and>
   shaped (auraCount cfg) (auraHeart (run cfg rnd evs (init_world cfg rnd)))"
proof -
  have "shaped (particleCount cfg) (mainHeart (init_world cfg rnd))"
    and "shaped (auraCount cfg) (auraHeart (init_world cfg rnd))"
    using init_world_shaped [of cfg rnd] by simp_all
  then show ?thesis by (rule run_shaped)
qed

end
